theory Spec2Isabelle
  imports Complex_Main "HOL-Library.Multiset"
begin

section \<open>Numbers\<close>

text \<open>
  The scoring pipeline of EcoIndex is JavaScript arithmetic over \<open>Number\<close>, the
  binary64 format of IEEE 754.  The embedding reads a finite \<open>Number\<close> as the
  real it denotes; \<open>NaN\<close> inputs and negative zero are outside the model.
  Where the code only compares, selects or evaluates the very expression a
  statement is about, the operations are taken exact.  \<open>calculatePercentile\<close>
  is different: it divides and then multiplies, and the rounding of these two
  operations decides on which side of a tie the result falls, so there the
  quotient and the product are rounded as the machine rounds them.
  \<open>Math.random()\<close> is an argument \<open>rnd\<close> of the function that calls it; the
  library returns a value with \<open>0 \<le> rnd < 1\<close>.

  \<open>Math.round\<close> rounds to the nearest integer and a tie goes towards plus
  infinity, which on the reals is \<open>\<lfloor>x + 1/2\<rfloor>\<close>.
\<close>

definition Math_round :: "real \<Rightarrow> int" where
  "Math_round x = \<lfloor>x + 1 / 2\<rfloor>"

text \<open>
  The result of a binary64 operation is the representable number nearest to the
  exact result, a tie going to the even significand.  A number of binary
  exponent \<open>e\<close> has a significand of 53 bits, so its neighbours are
  \<open>2\<^sup>e\<^sup>-\<^sup>5\<^sup>2\<close> apart; below \<open>2\<^sup>-\<^sup>1\<^sup>0\<^sup>2\<^sup>2\<close> the spacing stays that of the
  smallest normal exponent.  Overflow to infinity is not modelled: the values
  rounded here lie between 0 and 100.
\<close>

definition roundTiesToEven :: "real \<Rightarrow> int" where
  "roundTiesToEven m =
     (let f = \<lfloor>m\<rfloor>; d = m - of_int f
      in if d < 1 / 2 then f
         else if d > 1 / 2 then f + 1
         else if even f then f else f + 1)"

definition binary64 :: "real \<Rightarrow> real" where
  "binary64 x =
     (if x = 0 then 0
      else let e = max \<lfloor>log 2 \<bar>x\<bar>\<rfloor> (- 1022);
               ulp = 2 powi (e - 52)
           in sgn x * of_int (roundTiesToEven (\<bar>x\<bar> / ulp)) * ulp)"

text \<open>
  The one division of the modelled code that no test guards is the one of
  \<open>calculateRiskLevel\<close>.  JavaScript does not fail on a zero divisor: it yields
  an infinity or \<open>NaN\<close>, and a greater-than comparison with a finite number is then
  true for plus infinity only.
\<close>

datatype quotient = Finite real | PosInfinity | NegInfinity | NaN

definition js_divide :: "real \<Rightarrow> real \<Rightarrow> quotient" where
  "js_divide a b =
     (if b \<noteq> 0 then Finite (a / b)
      else if a > 0 then PosInfinity
      else if a < 0 then NegInfinity
      else NaN)"

fun js_gt :: "quotient \<Rightarrow> real \<Rightarrow> bool" where
  "js_gt (Finite x) c = (x > c)"
| "js_gt PosInfinity c = True"
| "js_gt NegInfinity c = False"
| "js_gt NaN c = False"

section \<open>spectral-indices.js: SpectralIndicesCalculator\<close>

definition calculateNDVI :: "real \<Rightarrow> real \<Rightarrow> real" where
  "calculateNDVI red nir =
     (if nir + red = 0 then 0
      else let ndvi = (nir - red) / (nir + red)
           in max (- 1) (min 1 ndvi))"

definition ndviToGreenspace :: "real \<Rightarrow> real" where
  "ndviToGreenspace ndvi =
     (if ndvi < 0 then 0
      else if ndvi < 0.3 then ndvi * 50
      else if ndvi < 0.6 then 15 + (ndvi - 0.3) * 100
      else 45 + (ndvi - 0.6) * 137.5)"

definition ndwiToWaterQuality :: "real \<Rightarrow> real" where
  "ndwiToWaterQuality ndwi =
     (let baseQuality = (ndwi + 1) * 50
      in if ndwi > 0.5 then min 100 (baseQuality + 20)
         else if ndwi > 0 then baseQuality
         else max 0 (baseQuality - 20))"

section \<open>The category scales of the two analyzers\<close>

text \<open>\<open>WaterQualityAnalyzer.getQualityCategory\<close>.\<close>

definition getQualityCategory :: "real \<Rightarrow> string" where
  "getQualityCategory index =
     (if index \<ge> 80 then ''Excellent''
      else if index \<ge> 60 then ''Good''
      else if index \<ge> 40 then ''Moderate''
      else if index \<ge> 20 then ''Poor''
      else ''Very Poor'')"

text \<open>\<open>GreenspaceAnalyzer.getGreenspaceCategory\<close>.\<close>

definition getGreenspaceCategory :: "real \<Rightarrow> string" where
  "getGreenspaceCategory coverage =
     (if coverage \<ge> 60 then ''Excellent''
      else if coverage \<ge> 40 then ''Good''
      else if coverage \<ge> 20 then ''Moderate''
      else if coverage \<ge> 10 then ''Poor''
      else ''Very Poor'')"

section \<open>eco-percentile.js: EcoPercentileCalculator\<close>

definition calculateEcoScore :: "real \<Rightarrow> real \<Rightarrow> real" where
  "calculateEcoScore waterQuality greenspace =
     (let score = (waterQuality * 0.5) + (greenspace * 0.5)
      in max 0 (min 100 score))"

text \<open>
  The comparator \<open>(a, b) => a - b\<close> sorts the copy of the batch in ascending
  numeric order.  The rank and the length are integers, which binary64 holds
  exactly; their quotient and its product with 100 are rounded.
\<close>

definition calculatePercentile :: "real \<Rightarrow> real list \<Rightarrow> int" where
  "calculatePercentile score allScores =
     (if length allScores = 0 then 50
      else let sorted = sort allScores;
               rank = length (filter (\<lambda>s. s \<le> score) sorted);
               percentile = binary64 (binary64 (real rank / real (length sorted)) * 100)
           in Math_round percentile)"

definition isUrbanArea :: "real \<Rightarrow> real \<Rightarrow> bool" where
  "isUrbanArea lat lon =
     ((lat > 40 \<and> lat < 42 \<and> lon > - 74 \<and> lon < - 73) \<or>
      (lat > 34 \<and> lat < 35 \<and> lon > - 119 \<and> lon < - 118) \<or>
      (lat > 41 \<and> lat < 42 \<and> lon > - 88 \<and> lon < - 87) \<or>
      (lat > 29 \<and> lat < 30 \<and> lon > - 96 \<and> lon < - 95))"

definition isCoastalArea :: "real \<Rightarrow> real \<Rightarrow> bool" where
  "isCoastalArea lat lon =
     (\<bar>lon + 80\<bar> < 5 \<or>
      \<bar>lon + 122\<bar> < 5 \<or>
      (lat > 25 \<and> lat < 31 \<and> lon > - 85 \<and> lon < - 80))"

text \<open>
  The synchronous estimators are the direct-estimation path.  Each draws at most
  one random number, passed here as \<open>rnd\<close>.
\<close>

definition estimateWaterQualitySync :: "real \<Rightarrow> real \<Rightarrow> real \<Rightarrow> real" where
  "estimateWaterQualitySync lat lon rnd =
     (let quality = 60;
          quality = (if isUrbanArea lat lon then quality - 15 else quality);
          quality = (if isCoastalArea lat lon then quality + 10 else quality);
          quality = (if lat > 40 \<and> lat < 50 \<and> lon > - 125 \<and> lon < - 100
                     then quality + 5 else quality);
          quality = quality + (rnd - 0.5) * 20
      in max 0 (min 100 quality))"

definition estimateGreenspaceSync :: "real \<Rightarrow> real \<Rightarrow> real \<Rightarrow> real" where
  "estimateGreenspaceSync lat lon rnd =
     (let coverage =
            (if lat > 45 \<and> lat < 50 \<and> lon > - 125 \<and> lon < - 100
               then 70 + (rnd - 0.5) * 20
             else if lat > 32 \<and> lat < 40 \<and> lon > - 120 \<and> lon < - 110
               then 15 + (rnd - 0.5) * 10
             else if lat > 30 \<and> lat < 36 \<and> lon > - 90 \<and> lon < - 75
               then 50 + (rnd - 0.5) * 20
             else 40);
          coverage = (if isUrbanArea lat lon then coverage - 20 else coverage)
      in max 0 (min 100 coverage))"

text \<open>
  The file holds a second, unversioned copy of the class after the first one
  (``Version: 2.1''), with the same \<open>estimateWaterQualitySync\<close>,
  \<open>isUrbanArea\<close> and \<open>isCoastalArea\<close> and this other greenspace estimator.
\<close>

definition estimateGreenspaceSync_prev :: "real \<Rightarrow> real \<Rightarrow> real \<Rightarrow> real" where
  "estimateGreenspaceSync_prev lat lon rnd =
     (let coverage = 40;
          coverage = (if isUrbanArea lat lon then coverage - 20 else coverage);
          coverage =
            (if lat > 45 \<and> lat < 50 \<and> lon > - 125 \<and> lon < - 100 then coverage + 30
             else if lat > 30 \<and> lat < 36 \<and> lon > - 90 \<and> lon < - 75 then coverage + 10
             else if lat > 32 \<and> lat < 40 \<and> lon > - 120 \<and> lon < - 110 then coverage - 15
             else coverage);
          coverage = coverage + (rnd - 0.5) * 15
      in max 0 (min 100 coverage))"

section \<open>SimpleAIPredictor: the rule-based trend projector\<close>

text \<open>
  A tract carries a \<open>properties\<close> bag.  The projector reads \<open>lat\<close>,
  \<open>lon\<close> and \<open>ecoScore\<close>; the score is absent until the scoring stage has
  run, hence an option.  (The locals \<open>waterQuality\<close> and \<open>greenspace\<close> of
  \<open>predictFutureEcoScore\<close> are read and never used.)
\<close>

record properties =
  lat :: real
  lon :: real
  ecoScore :: "real option"

record tract =
  properties :: properties

text \<open>The predictor's own urban predicate has a fifth box, San Francisco.\<close>

definition SimpleAIPredictor_isUrbanArea :: "real \<Rightarrow> real \<Rightarrow> bool" where
  "SimpleAIPredictor_isUrbanArea la lo =
     ((la > 40 \<and> la < 42 \<and> lo > - 74 \<and> lo < - 73) \<or>
      (la > 34 \<and> la < 35 \<and> lo > - 119 \<and> lo < - 118) \<or>
      (la > 41 \<and> la < 42 \<and> lo > - 88 \<and> lo < - 87) \<or>
      (la > 29 \<and> la < 30 \<and> lo > - 96 \<and> lo < - 95) \<or>
      (la > 37 \<and> la < 38 \<and> lo > - 123 \<and> lo < - 122))"

definition isSuburban :: "real \<Rightarrow> real \<Rightarrow> bool" where
  "isSuburban la lo =
     ((la > 39 \<and> la < 41 \<and> lo > - 75 \<and> lo < - 73) \<or>
      (la > 33 \<and> la < 35 \<and> lo > - 118 \<and> lo < - 117) \<or>
      (la > 40 \<and> la < 42 \<and> lo > - 89 \<and> lo < - 87))"

definition isProtectedArea :: "real \<Rightarrow> real \<Rightarrow> bool" where
  "isProtectedArea la lo =
     ((la > 44 \<and> la < 50 \<and> lo > - 125 \<and> lo < - 110) \<or>
      (la > 36 \<and> la < 38 \<and> lo > - 120 \<and> lo < - 115) \<or>
      (la > 35 \<and> la < 37 \<and> lo > - 84 \<and> lo < - 82))"

definition isCoastal :: "real \<Rightarrow> real \<Rightarrow> bool" where
  "isCoastal la lo =
     (\<bar>lo + 80\<bar> < 5 \<or>
      \<bar>lo + 122\<bar> < 5 \<or>
      (la > 25 \<and> la < 31 \<and> lo > - 85 \<and> lo < - 80))"

definition calculateTrend :: "tract \<Rightarrow> string" where
  "calculateTrend t =
     (let la = lat (properties t); lo = lon (properties t)
      in if SimpleAIPredictor_isUrbanArea la lo then ''declining''
         else if isProtectedArea la lo then ''stable''
         else if isCoastal la lo then ''at_risk''
         else ''slight_decline'')"

definition getRegionalTrendFactor :: "tract \<Rightarrow> real" where
  "getRegionalTrendFactor t =
     (let la = lat (properties t); lo = lon (properties t)
      in if la > 34 \<and> la < 36 \<and> lo > - 119 \<and> lo < - 117 then - 0.8
         else if la > 40 \<and> la < 42 \<and> lo > - 74 \<and> lo < - 73 then - 0.7
         else if la > 45 \<and> la < 50 \<and> lo > - 125 \<and> lo < - 100 then - 0.2
         else - 0.5)"

definition getUrbanPressureFactor :: "tract \<Rightarrow> real" where
  "getUrbanPressureFactor t =
     (let la = lat (properties t); lo = lon (properties t)
      in if SimpleAIPredictor_isUrbanArea la lo then - 1.2
         else if isSuburban la lo then - 0.8
         else - 0.3)"

text \<open>
  The \<open>switch\<close> over the trend has no \<open>default\<close> branch: a string that is
  none of the four labels leaves \<open>baseDecline\<close> at its initial 0.
\<close>

definition calculateAnnualDecline :: "string \<Rightarrow> real \<Rightarrow> real \<Rightarrow> real" where
  "calculateAnnualDecline trend regionalFactor urbanPressure =
     (let baseDecline =
            (if trend = ''declining'' then - 1.5
             else if trend = ''at_risk'' then - 1.0
             else if trend = ''slight_decline'' then - 0.5
             else if trend = ''stable'' then - 0.1
             else 0)
      in baseDecline + regionalFactor + urbanPressure)"

definition calculateRiskLevel :: "real \<Rightarrow> real \<Rightarrow> real \<Rightarrow> string" where
  "calculateRiskLevel currentScore predictedScore yearsAhead =
     (let decline = currentScore - predictedScore;
          declineRate = js_divide decline yearsAhead
      in if predictedScore < 30 \<or> js_gt declineRate 2 then ''critical''
         else if predictedScore < 50 \<or> js_gt declineRate 1.5 then ''high''
         else if js_gt declineRate 0.5 then ''moderate''
         else ''low'')"

text \<open>
  \<open>predictFutureEcoScore\<close>, cut at its local constants.  \<open>ecoScore || 50\<close>
  takes 50 for a missing score and for the score 0 alike.
\<close>

definition currentScoreOf :: "tract \<Rightarrow> real" where
  "currentScoreOf t =
     (case ecoScore (properties t) of
        None \<Rightarrow> 50
      | Some v \<Rightarrow> if v = 0 then 50 else v)"

definition annualDeclineOf :: "tract \<Rightarrow> real" where
  "annualDeclineOf t =
     (let trend = calculateTrend t;
          regionalFactor = getRegionalTrendFactor t;
          urbanPressure = getUrbanPressureFactor t
      in calculateAnnualDecline trend regionalFactor urbanPressure)"

definition predictedScoreOf :: "tract \<Rightarrow> real \<Rightarrow> real" where
  "predictedScoreOf t yearsAhead =
     max 0 (min 100 (currentScoreOf t + (annualDeclineOf t * yearsAhead)))"

record prediction =
  currentScore :: real
  predictedScore :: real
  yearsAhead :: real
  annualDecline :: real
  riskLevel :: string
  needsAction :: bool
  trend :: string
  regionalFactor :: real
  urbanPressure :: real

text \<open>
  The record that a cache miss builds.  Its \<open>predictedScore\<close> field holds the
  rounded projection, while the risk level is computed from the unrounded one.
\<close>

definition newPrediction :: "tract \<Rightarrow> real \<Rightarrow> prediction" where
  "newPrediction t years =
     (let risk = calculateRiskLevel (currentScoreOf t) (predictedScoreOf t years) years
      in \<lparr> currentScore = currentScoreOf t,
           predictedScore = real_of_int (Math_round (predictedScoreOf t years)),
           yearsAhead = years,
           annualDecline = annualDeclineOf t,
           riskLevel = risk,
           needsAction = (risk = ''critical'' \<or> risk = ''high''),
           trend = calculateTrend t,
           regionalFactor = getRegionalTrendFactor t,
           urbanPressure = getUrbanPressureFactor t \<rparr>)"

text \<open>
  The cache key is the text \<open>lat.toFixed(4),lon.toFixed(4),yearsAhead\<close>.
  For a coordinate (a magnitude far below \<open>10\<^sup>2\<^sup>1\<close>) \<open>toFixed\<close> prints the
  sign and rounds the magnitude to four decimals, a tie going up, so the key is
  determined by the sign and the rounded magnitude.  The default of
  \<open>yearsAhead\<close> is 15; here the caller passes it.
\<close>

definition toFixed4 :: "real \<Rightarrow> bool \<times> int" where
  "toFixed4 x = (x < 0, \<lfloor>\<bar>x\<bar> * 10000 + 1 / 2\<rfloor>)"

type_synonym cacheKey = "(bool \<times> int) \<times> (bool \<times> int) \<times> real"

definition cacheKeyOf :: "tract \<Rightarrow> real \<Rightarrow> cacheKey" where
  "cacheKeyOf t years =
     (toFixed4 (lat (properties t)), toFixed4 (lon (properties t)), years)"

definition predictFutureEcoScore ::
  "(cacheKey \<rightharpoonup> prediction) \<Rightarrow> tract \<Rightarrow> real \<Rightarrow> prediction \<times> (cacheKey \<rightharpoonup> prediction)" where
  "predictFutureEcoScore predictions t years =
     (case predictions (cacheKeyOf t years) of
        Some p \<Rightarrow> (p, predictions)
      | None \<Rightarrow>
          (let p = newPrediction t years
           in (p, predictions(cacheKeyOf t years \<mapsto> p))))"

text \<open>
  The caches that a predictor can hold: the empty one of the constructor, and
  what a call of \<open>predictFutureEcoScore\<close> leaves behind.
\<close>

inductive reachable :: "(cacheKey \<rightharpoonup> prediction) \<Rightarrow> bool" where
  reachable_empty: "reachable Map.empty"
| reachable_call: "reachable c \<Longrightarrow> reachable (snd (predictFutureEcoScore c t years))"

section \<open>The specification's formulas\<close>

text \<open>
  These definitions follow the words of the specification, not the code; the
  theorems compare the code with them.
\<close>

definition clamp :: "real \<Rightarrow> real \<Rightarrow> real \<Rightarrow> real" where
  "clamp x lo hi = (if x < lo then lo else if hi < x then hi else x)"

text \<open>NDVI to greenspace: four segments, the last clamped to 100.\<close>

definition spec_ndviToGreenspace :: "real \<Rightarrow> real" where
  "spec_ndviToGreenspace ndvi =
     (if ndvi < 0 then 0
      else if 0 \<le> ndvi \<and> ndvi < 0.3 then ndvi * 50
      else if 0.3 \<le> ndvi \<and> ndvi < 0.6 then 15 + (ndvi - 0.3) * 100
      else min 100 (45 + (ndvi - 0.6) * 137.5))"

text \<open>NDWI to water quality: a base value and three adjustments.\<close>

definition spec_ndwiToWaterQuality :: "real \<Rightarrow> real" where
  "spec_ndwiToWaterQuality ndwi =
     (let base = (ndwi + 1) * 50
      in if ndwi > 0.5 then min 100 (base + 20)
         else if 0 < ndwi \<and> ndwi \<le> 0.5 then base
         else max 0 (base - 20))"

text \<open>
  Ordered predicate checks, first match wins: the label of the first rule whose
  predicate holds, and the default when none does.
\<close>

fun firstMatch :: "(bool \<times> 'a) list \<Rightarrow> 'a \<Rightarrow> 'a" where
  "firstMatch [] d = d"
| "firstMatch ((b, v) # rules) d = (if b then v else firstMatch rules d)"

definition spec_trend :: "bool \<Rightarrow> bool \<Rightarrow> bool \<Rightarrow> string" where
  "spec_trend urban protected coastal =
     firstMatch [(urban, ''declining''), (protected, ''stable''), (coastal, ''at_risk'')]
       ''slight_decline''"

text \<open>The table of base declines, one entry per trend label.\<close>

definition baseDeclineTable :: "(string \<times> real) list" where
  "baseDeclineTable =
     [(''declining'', - 1.5), (''at_risk'', - 1.0), (''slight_decline'', - 0.5),
      (''stable'', - 0.1)]"

definition baseDeclineForTrend :: "string \<Rightarrow> real option" where
  "baseDeclineForTrend = map_of baseDeclineTable"

text \<open>
  The percentile as the specification words it: the share of the batch that is
  at most \<open>s\<close>, in percent, rounded.
\<close>

definition spec_percentile :: "real \<Rightarrow> real list \<Rightarrow> int" where
  "spec_percentile s batch =
     round (100 * real (length (filter (\<lambda>x. x \<le> s) batch)) / real (length batch))"

text \<open>The five-bucket scale at the thresholds 80, 60, 40 and 20.\<close>

definition spec_category :: "real \<Rightarrow> string" where
  "spec_category s =
     (if s \<ge> 80 then ''Excellent''
      else if 60 \<le> s \<and> s < 80 then ''Good''
      else if 40 \<le> s \<and> s < 60 then ''Moderate''
      else if 20 \<le> s \<and> s < 40 then ''Poor''
      else ''Very Poor'')"

text \<open>The risk rule, on a decline rate that is a real number.\<close>

definition spec_riskLevel :: "real \<Rightarrow> real \<Rightarrow> string" where
  "spec_riskLevel predicted declineRate =
     (if predicted < 30 \<or> declineRate > 2 then ''critical''
      else if predicted < 50 \<or> declineRate > 1.5 then ''high''
      else if declineRate > 0.5 then ''moderate''
      else ''low'')"

section \<open>Percentile rank and eco score\<close>

lemma filter_sort_length:
  "length (filter P (sort xs)) = length (filter P (xs::real list))"
proof -
  have "mset (filter P (sort xs)) = mset (filter P xs)"
    by simp
  then show ?thesis
    by (rule mset_eq_length)
qed

text \<open>Evaluating a rounding, once the binary exponent of the argument is known.\<close>

lemma binary64_eval:
  assumes "0 < x" and "2 powi e \<le> x" and "x < 2 powi (e + 1)" and "- 1022 \<le> e"
  shows "binary64 x = of_int (roundTiesToEven (x / 2 powi (e - 52))) * 2 powi (e - 52)"
proof -
  have lo: "2 powr real_of_int e \<le> x"
    using assms(2) by (simp add: powr_real_of_int')
  have "2 powr real_of_int (e + 1) = 2 powi (e + 1)"
    by (rule powr_real_of_int') simp_all
  with assms(3) have hi: "x < 2 powr (real_of_int e + 1)"
    by simp
  from assms(1) lo hi have "\<lfloor>log 2 x\<rfloor> = e"
    by (simp add: floor_log_eq_powr_iff)
  with assms show ?thesis
    by (simp add: binary64_def Let_def max_def)
qed

text \<open>
  The quotient 23 / 40 is not a binary fraction; the nearest binary64 number lies
  below it, and one hundred times that number rounds to a number below 57.5.
\<close>

lemma binary64_quotient_23_40: "binary64 (23 / 40) = 5179139571476070 / 2 ^ 53"
  by (subst binary64_eval [where e = "- 1"]) (simp_all add: roundTiesToEven_def Let_def)

lemma binary64_product_23_40:
  "binary64 (5179139571476070 / 2 ^ 53 * 100) = 8092405580431359 / 2 ^ 47"
  by (subst binary64_eval [where e = 5]) (simp_all add: roundTiesToEven_def Let_def)

text \<open>
  Claim C4.  The claim is that \<open>calculatePercentile\<close> of a score of a batch of
  \<open>N\<close> scores is the number of scores that are at most it, times 100, over
  \<open>N\<close>, rounded.  On the batch of the scores 1 to 40 and the score 23 the
  code does not return that: the formula gives \<open>round 57.5 = 58\<close>, while the
  code rounds 23 / 40 to a binary64 number first and its product with 100 to
  \<open>57.49999999999999\<close>, which \<open>Math.round\<close> takes to 57.
\<close>

theorem calculatePercentile_tie_23_of_40:
  "23 \<in> set
      [1, 2, 3, 4, 5, 6, 7, 8, 9, 10, 11, 12, 13, 14, 15, 16, 17, 18, 19, 20, 21, 22,
       23, 24, 25, 26, 27, 28, 29, 30, 31, 32, 33, 34, 35, 36, 37, 38, 39, 40]
   \<and> calculatePercentile 23
      [1, 2, 3, 4, 5, 6, 7, 8, 9, 10, 11, 12, 13, 14, 15, 16, 17, 18, 19, 20, 21, 22,
       23, 24, 25, 26, 27, 28, 29, 30, 31, 32, 33, 34, 35, 36, 37, 38, 39, 40] = 57
   \<and> spec_percentile 23
      [1, 2, 3, 4, 5, 6, 7, 8, 9, 10, 11, 12, 13, 14, 15, 16, 17, 18, 19, 20, 21, 22,
       23, 24, 25, 26, 27, 28, 29, 30, 31, 32, 33, 34, 35, 36, 37, 38, 39, 40] = 58"
proof -
  let ?batch = "[1, 2, 3, 4, 5, 6, 7, 8, 9, 10, 11, 12, 13, 14, 15, 16, 17, 18, 19, 20, 21, 22, 23, 24, 25, 26, 27, 28, 29, 30, 31, 32, 33, 34, 35, 36, 37, 38, 39, 40] :: real list"
  have "calculatePercentile 23 ?batch = Math_round (binary64 (binary64 (23 / 40) * 100))"
    by (simp add: calculatePercentile_def Let_def filter_sort_length)
  also have "\<dots> = Math_round (8092405580431359 / 2 ^ 47)"
    by (simp only: binary64_quotient_23_40 binary64_product_23_40)
  also have "\<dots> = 57"
    by (simp add: Math_round_def)
  finally have code: "calculatePercentile 23 ?batch = 57" .
  have spec: "spec_percentile 23 ?batch = 58"
    by (simp add: spec_percentile_def round_def)
  from code spec show ?thesis
    by simp
qed

text \<open>
  Claim C10.  On the empty batch \<open>calculatePercentile\<close> returns 50, whatever
  the score: it neither fails nor returns 0.
\<close>

theorem calculatePercentile_empty: "calculatePercentile s [] = 50"
  by (simp add: calculatePercentile_def)

text \<open>
  Claim C5.  \<open>calculateEcoScore\<close> is the mean of its two arguments with the
  fixed weights 0.5 and 0.5, clamped to the interval from 0 to 100; the function
  has no further argument that could change the weights.  For water quality 80
  and greenspace 40 the score is 60.
\<close>

theorem calculateEcoScore_clamped_mean:
  "calculateEcoScore waterQuality greenspace =
     clamp (waterQuality * 0.5 + greenspace * 0.5) 0 100
   \<and> calculateEcoScore 80 40 = 60"
  by (simp add: calculateEcoScore_def clamp_def Let_def)

theorem calculateEcoScore_clamped_mean_witness:
  "calculateEcoScore 150 90 = clamp (150 * 0.5 + 90 * 0.5) 0 100
   \<and> calculateEcoScore 150 90 = 100
   \<and> calculateEcoScore 80 40 = 60"
  using calculateEcoScore_clamped_mean [of 150 90]
  by (simp add: clamp_def)

section \<open>Spectral indices and score conversion\<close>

text \<open>
  Claim C8.  \<open>calculateNDVI\<close> returns 0 when \<open>nir + red = 0\<close>, and otherwise
  the ratio \<open>(nir - red) / (nir + red)\<close> clamped to the interval from -1 to 1.
  The division is only reached with a non-zero divisor, and every result lies
  in that interval.  For red 0.15 and nir 0.225 the index is 0.2, hence within
  \<open>10\<^sup>-\<^sup>9\<close> of it.
\<close>

theorem calculateNDVI_guarded:
  "(nir + red = 0 \<longrightarrow> calculateNDVI red nir = 0)
   \<and> (nir + red \<noteq> 0 \<longrightarrow> calculateNDVI red nir = clamp ((nir - red) / (nir + red)) (- 1) 1)
   \<and> - 1 \<le> calculateNDVI red nir \<and> calculateNDVI red nir \<le> 1
   \<and> calculateNDVI 0.15 0.225 = 0.2
   \<and> \<bar>calculateNDVI 0.15 0.225 - 0.2\<bar> < 1 / 10 ^ 9"
  by (simp add: calculateNDVI_def clamp_def Let_def)

theorem calculateNDVI_guarded_witness:
  "calculateNDVI 0.5 (- 0.5) = 0
   \<and> calculateNDVI 0.1 0.3 = clamp ((0.3 - 0.1) / (0.3 + 0.1)) (- 1) 1
   \<and> calculateNDVI 0.1 0.3 = 0.5
   \<and> calculateNDVI (- 0.1) 0.3 = 1"
proof -
  have z: "- 0.5 + 0.5 = (0::real)" by simp
  have nz: "0.3 + 0.1 \<noteq> (0::real)" by simp
  have nz': "0.3 + (- 0.1) \<noteq> (0::real)" by simp
  from z nz nz' calculateNDVI_guarded [of "- 0.5" "0.5"] calculateNDVI_guarded [of "0.3" "0.1"]
    calculateNDVI_guarded [of "0.3" "- 0.1"]
  show ?thesis by (simp add: clamp_def)
qed

text \<open>
  Claim C3.  For an index \<open>x\<close> between -1 and 1, \<open>ndviToGreenspace\<close> is the
  four-segment map of the specification and \<open>ndwiToWaterQuality\<close> is its base
  value with the three adjustments, and both results lie between 0 and 100.  The
  code does not clamp the last NDVI segment; on this domain the segment ends at
  exactly 100, so the clamp of the specification never acts.
\<close>

theorem score_converters_piecewise:
  "- 1 \<le> x \<and> x \<le> 1 \<longrightarrow>
     ndviToGreenspace x = spec_ndviToGreenspace x
     \<and> ndwiToWaterQuality x = spec_ndwiToWaterQuality x
     \<and> 0 \<le> ndviToGreenspace x \<and> ndviToGreenspace x \<le> 100
     \<and> 0 \<le> ndwiToWaterQuality x \<and> ndwiToWaterQuality x \<le> 100"
  by (auto simp add: ndviToGreenspace_def spec_ndviToGreenspace_def ndwiToWaterQuality_def
      spec_ndwiToWaterQuality_def Let_def)

theorem score_converters_piecewise_witness:
  "ndviToGreenspace 1 = 100 \<and> ndviToGreenspace 0.4 = 25
   \<and> ndwiToWaterQuality 0.7 = 100 \<and> ndwiToWaterQuality (- 0.8) = 0
   \<and> ndwiToWaterQuality 0.4 = 70"
proof -
  have a: "- 1 \<le> (1::real) \<and> (1::real) \<le> 1" by simp
  have b: "- 1 \<le> (0.4::real) \<and> (0.4::real) \<le> 1" by simp
  have c: "- 1 \<le> (0.7::real) \<and> (0.7::real) \<le> 1" by simp
  have d: "- 1 \<le> (- 0.8::real) \<and> (- 0.8::real) \<le> 1" by simp
  from a b c d score_converters_piecewise [of 1] score_converters_piecewise [of "0.4"]
    score_converters_piecewise [of "0.7"] score_converters_piecewise [of "- 0.8"]
  show ?thesis
    by (simp add: spec_ndviToGreenspace_def spec_ndwiToWaterQuality_def)
qed

section \<open>Category scales\<close>

text \<open>
  Claim C2, as stated, at the coverage 70: the scale at 80/60/40/20 calls it
  Good, and \<open>getGreenspaceCategory\<close> calls it Excellent.
\<close>

theorem greenspace_category_counterexample:
  "(60::real) \<le> 70 \<and> (70::real) < 80
   \<and> spec_category 70 = ''Good''
   \<and> getGreenspaceCategory 70 = ''Excellent''
   \<and> getGreenspaceCategory 70 \<noteq> ''Good''"
  by (simp add: getGreenspaceCategory_def spec_category_def)

text \<open>
  Claim C2, amended.  \<open>getQualityCategory\<close> maps a score to the five buckets at
  the thresholds 80, 60, 40 and 20: Excellent iff \<open>s \<ge> 80\<close>, Good iff
  \<open>60 \<le> s < 80\<close>, Moderate iff \<open>40 \<le> s < 60\<close>, Poor iff \<open>20 \<le> s < 40\<close>,
  Very Poor iff \<open>s < 20\<close>.  \<open>getGreenspaceCategory\<close> maps a coverage to the
  same five buckets at the thresholds 60, 40, 20 and 10.
\<close>

theorem category_thresholds:
  "getQualityCategory s = spec_category s
   \<and> (getQualityCategory s = ''Excellent'') = (s \<ge> 80)
   \<and> (getQualityCategory s = ''Good'') = (60 \<le> s \<and> s < 80)
   \<and> (getQualityCategory s = ''Moderate'') = (40 \<le> s \<and> s < 60)
   \<and> (getQualityCategory s = ''Poor'') = (20 \<le> s \<and> s < 40)
   \<and> (getQualityCategory s = ''Very Poor'') = (s < 20)
   \<and> (getGreenspaceCategory s = ''Excellent'') = (s \<ge> 60)
   \<and> (getGreenspaceCategory s = ''Good'') = (40 \<le> s \<and> s < 60)
   \<and> (getGreenspaceCategory s = ''Moderate'') = (20 \<le> s \<and> s < 40)
   \<and> (getGreenspaceCategory s = ''Poor'') = (10 \<le> s \<and> s < 20)
   \<and> (getGreenspaceCategory s = ''Very Poor'') = (s < 10)"
  by (auto simp add: getQualityCategory_def getGreenspaceCategory_def spec_category_def)

theorem category_thresholds_witness:
  "getQualityCategory 70 = ''Good'' \<and> getGreenspaceCategory 70 = ''Excellent''
   \<and> getQualityCategory 15 = ''Very Poor'' \<and> getGreenspaceCategory 15 = ''Poor''"
  using category_thresholds [of 70] category_thresholds [of 15]
  by (simp add: spec_category_def)

section \<open>The Sonoma County scenario\<close>

text \<open>
  Claim C1, as stated, at the location \<open>(38.5, -122.9)\<close>: the longitude is
  within 5 degrees of the west-coast meridian -122, so the coastal predicate
  holds; with the draw 0.9 the water quality is 78, not within 10 of 60; and the
  trend is \<open>at_risk\<close>, not \<open>slight_decline\<close>.
\<close>

theorem sonoma_counterexample:
  "isCoastalArea 38.5 (- 122.9)
   \<and> estimateWaterQualitySync 38.5 (- 122.9) 0.9 = 78
   \<and> \<not> \<bar>estimateWaterQualitySync 38.5 (- 122.9) 0.9 - 60\<bar> \<le> 10
   \<and> calculateTrend \<lparr> properties = \<lparr> lat = 38.5, lon = - 122.9, ecoScore = None \<rparr> \<rparr>
       = ''at_risk''
   \<and> calculateTrend \<lparr> properties = \<lparr> lat = 38.5, lon = - 122.9, ecoScore = None \<rparr> \<rparr>
       \<noteq> ''slight_decline''"
  by (simp add: isCoastalArea_def isUrbanArea_def estimateWaterQualitySync_def
      calculateTrend_def SimpleAIPredictor_isUrbanArea_def isProtectedArea_def isCoastal_def)

text \<open>
  Claim C1, amended.  The location \<open>(38.5, -122.9)\<close> is outside the urban
  predicates and inside the coastal ones.  For a draw \<open>rnd\<close> with
  \<open>0 \<le> rnd < 1\<close> the direct-estimation path gives the water quality
  \<open>70 + (rnd - 0.5) * 20\<close> (base 60, plus 10 for the coast), which is within 10
  of 70, and the greenspace 40 (with no jitter in the current copy of the file,
  and \<open>40 + (rnd - 0.5) * 15\<close> in the older one).  The trend classifier returns
  \<open>at_risk\<close>, whatever the tract's score.
\<close>

theorem sonoma_scenario:
  "0 \<le> rnd \<and> rnd < 1 \<longrightarrow>
     \<not> isUrbanArea 38.5 (- 122.9)
     \<and> \<not> SimpleAIPredictor_isUrbanArea 38.5 (- 122.9)
     \<and> isCoastalArea 38.5 (- 122.9)
     \<and> isCoastal 38.5 (- 122.9)
     \<and> estimateWaterQualitySync 38.5 (- 122.9) rnd = 70 + (rnd - 0.5) * 20
     \<and> \<bar>estimateWaterQualitySync 38.5 (- 122.9) rnd - 70\<bar> \<le> 10
     \<and> estimateGreenspaceSync 38.5 (- 122.9) rnd = 40
     \<and> estimateGreenspaceSync_prev 38.5 (- 122.9) rnd = 40 + (rnd - 0.5) * 15
     \<and> calculateTrend \<lparr> properties = \<lparr> lat = 38.5, lon = - 122.9, ecoScore = e \<rparr> \<rparr>
         = ''at_risk''"
  by (simp add: isCoastalArea_def isUrbanArea_def estimateWaterQualitySync_def
      calculateTrend_def SimpleAIPredictor_isUrbanArea_def isProtectedArea_def isCoastal_def
      estimateGreenspaceSync_def estimateGreenspaceSync_prev_def abs_le_iff)

theorem sonoma_scenario_witness:
  "estimateWaterQualitySync 38.5 (- 122.9) 0.5 = 70
   \<and> estimateGreenspaceSync 38.5 (- 122.9) 0.5 = 40
   \<and> estimateGreenspaceSync_prev 38.5 (- 122.9) 0.5 = 40
   \<and> calculateTrend \<lparr> properties = \<lparr> lat = 38.5, lon = - 122.9, ecoScore = Some 55 \<rparr> \<rparr>
       = ''at_risk''"
proof -
  have draw: "0 \<le> (0.5::real) \<and> (0.5::real) < 1" by simp
  from draw sonoma_scenario [of "0.5" "Some 55"] show ?thesis
    by simp
qed

section \<open>Trend, annual decline and projection\<close>

lemma calculateTrend_labels:
  "calculateTrend t \<in> {''declining'', ''stable'', ''at_risk'', ''slight_decline''}"
  by (simp add: calculateTrend_def Let_def)

lemma baseDecline_entries:
  "baseDeclineForTrend ''declining'' = Some (- 1.5)"
  "baseDeclineForTrend ''at_risk'' = Some (- 1.0)"
  "baseDeclineForTrend ''slight_decline'' = Some (- 0.5)"
  "baseDeclineForTrend ''stable'' = Some (- 0.1)"
  by (simp_all add: baseDeclineForTrend_def baseDeclineTable_def)

lemma calculateAnnualDecline_table:
  "baseDeclineForTrend tr = Some b \<Longrightarrow> calculateAnnualDecline tr r u = b + r + u"
  by (auto simp add: baseDeclineForTrend_def baseDeclineTable_def calculateAnnualDecline_def
      split: if_splits)

text \<open>Every entry of a reachable cache was built by \<open>newPrediction\<close> for the years of its key.\<close>

lemma reachable_entries:
  "reachable c \<Longrightarrow> c k = Some p \<Longrightarrow> \<exists>t. p = newPrediction t (snd (snd k))"
proof (induction arbitrary: k p rule: reachable.induct)
  case reachable_empty
  then show ?case by simp
next
  case (reachable_call c t years)
  show ?case
  proof (cases "c (cacheKeyOf t years)")
    case None
    with reachable_call.prems
    have "(k = cacheKeyOf t years \<and> p = newPrediction t years) \<or> c k = Some p"
      by (auto simp add: predictFutureEcoScore_def Let_def split: if_splits)
    then show ?thesis
    proof
      assume "k = cacheKeyOf t years \<and> p = newPrediction t years"
      then show ?thesis by (auto simp add: cacheKeyOf_def)
    next
      assume "c k = Some p"
      then show ?thesis by (rule reachable_call.IH)
    qed
  next
    case (Some q)
    with reachable_call.prems have "c k = Some p"
      by (simp add: predictFutureEcoScore_def)
    then show ?thesis by (rule reachable_call.IH)
  qed
qed

lemma predictFutureEcoScore_result:
  assumes "reachable c"
  shows "\<exists>t'. fst (predictFutureEcoScore c t y) = newPrediction t' y"
proof (cases "c (cacheKeyOf t y)")
  case None
  then show ?thesis
    by (auto simp add: predictFutureEcoScore_def Let_def)
next
  case (Some q)
  with assms reachable_entries [of c "cacheKeyOf t y" q]
  have "\<exists>t'. q = newPrediction t' y"
    by (simp add: cacheKeyOf_def)
  with Some show ?thesis
    by (simp add: predictFutureEcoScore_def)
qed

text \<open>
  Claim C6, as stated, at a tract at \<open>(39, -100)\<close> with the score 50, fifteen
  years ahead, on the empty cache: no rule matches, the annual decline is
  -0.5 - 0.5 - 0.3 = -1.3 and the clamp of 50 - 19.5 is 30.5, but the predicted
  score of the prediction that \<open>predictFutureEcoScore\<close> returns is 31.
\<close>

theorem predicted_score_counterexample:
  "clamp (currentScoreOf \<lparr> properties = \<lparr> lat = 39, lon = - 100, ecoScore = Some 50 \<rparr> \<rparr> + annualDeclineOf \<lparr> properties = \<lparr> lat = 39, lon = - 100, ecoScore = Some 50 \<rparr> \<rparr> * 15) 0 100 = 30.5
   \<and> predictedScore (fst (predictFutureEcoScore Map.empty \<lparr> properties = \<lparr> lat = 39, lon = - 100, ecoScore = Some 50 \<rparr> \<rparr> 15)) = 31
   \<and> predictedScore (fst (predictFutureEcoScore Map.empty \<lparr> properties = \<lparr> lat = 39, lon = - 100, ecoScore = Some 50 \<rparr> \<rparr> 15))
       \<noteq> clamp (currentScoreOf \<lparr> properties = \<lparr> lat = 39, lon = - 100, ecoScore = Some 50 \<rparr> \<rparr> + annualDeclineOf \<lparr> properties = \<lparr> lat = 39, lon = - 100, ecoScore = Some 50 \<rparr> \<rparr> * 15) 0 100"
  by (simp add: predictFutureEcoScore_def newPrediction_def Let_def predictedScoreOf_def
      currentScoreOf_def annualDeclineOf_def calculateAnnualDecline_def calculateTrend_def
      getRegionalTrendFactor_def getUrbanPressureFactor_def SimpleAIPredictor_isUrbanArea_def
      isProtectedArea_def isCoastal_def isSuburban_def clamp_def Math_round_def)

text \<open>
  Claim C6, amended.  The trend of a tract is the label of the first rule that
  matches, in the order urban (declining), protected area (stable), coastal (at
  risk), and \<open>slight_decline\<close> when none does.  The base declines are -1.5,
  -1.0, -0.5 and -0.1 for declining, at risk, slight decline and stable; for each
  of these labels \<open>calculateAnnualDecline\<close> is the base decline plus the
  regional factor plus the urban pressure factor, and so is the annual decline
  of every tract.  The current score plus the annual decline times the years
  ahead, clamped to the interval from 0 to 100, is the value from which the risk
  level is computed; the predicted score of the prediction that
  \<open>predictFutureEcoScore\<close> returns is \<open>Math.round\<close> of that clamp.  On a cache
  miss the prediction is built from the tract and stored; and every prediction
  returned from a cache the predictor can hold has, as its predicted score, the
  rounded clamp of its own current score, annual decline and years.
\<close>

theorem trend_decline_projection:
  "calculateTrend t =
     spec_trend (SimpleAIPredictor_isUrbanArea (lat (properties t)) (lon (properties t)))
       (isProtectedArea (lat (properties t)) (lon (properties t)))
       (isCoastal (lat (properties t)) (lon (properties t)))
   \<and> baseDeclineForTrend ''declining'' = Some (- 1.5)
   \<and> baseDeclineForTrend ''at_risk'' = Some (- 1.0)
   \<and> baseDeclineForTrend ''slight_decline'' = Some (- 0.5)
   \<and> baseDeclineForTrend ''stable'' = Some (- 0.1)
   \<and> (baseDeclineForTrend tr = Some b \<longrightarrow> calculateAnnualDecline tr r u = b + r + u)
   \<and> Some (annualDeclineOf t) =
       map_option (\<lambda>b. b + getRegionalTrendFactor t + getUrbanPressureFactor t)
         (baseDeclineForTrend (calculateTrend t))
   \<and> predictedScoreOf t y = clamp (currentScoreOf t + annualDeclineOf t * y) 0 100
   \<and> trend (newPrediction t y) = calculateTrend t
   \<and> annualDecline (newPrediction t y) = annualDeclineOf t
   \<and> riskLevel (newPrediction t y) =
       calculateRiskLevel (currentScoreOf t)
         (clamp (currentScoreOf t + annualDeclineOf t * y) 0 100) y
   \<and> predictedScore (newPrediction t y) =
       real_of_int (Math_round (clamp (currentScoreOf t + annualDeclineOf t * y) 0 100))
   \<and> (c (cacheKeyOf t y) = None \<longrightarrow>
        predictFutureEcoScore c t y =
          (newPrediction t y, c(cacheKeyOf t y \<mapsto> newPrediction t y)))
   \<and> (c (cacheKeyOf t y) = Some q \<longrightarrow> predictFutureEcoScore c t y = (q, c))
   \<and> (reachable c \<and> p = fst (predictFutureEcoScore c t y) \<longrightarrow>
        yearsAhead p = y
        \<and> predictedScore p =
            real_of_int (Math_round (clamp (currentScore p + annualDecline p * y) 0 100)))"
proof (intro conjI impI)
  show "calculateTrend t =
     spec_trend (SimpleAIPredictor_isUrbanArea (lat (properties t)) (lon (properties t)))
       (isProtectedArea (lat (properties t)) (lon (properties t)))
       (isCoastal (lat (properties t)) (lon (properties t)))"
    by (simp add: calculateTrend_def spec_trend_def Let_def)
next
  assume "baseDeclineForTrend tr = Some b"
  then show "calculateAnnualDecline tr r u = b + r + u"
    by (rule calculateAnnualDecline_table)
next
  obtain b where b: "baseDeclineForTrend (calculateTrend t) = Some b"
    using calculateTrend_labels [of t] baseDecline_entries by auto
  then have "annualDeclineOf t = b + getRegionalTrendFactor t + getUrbanPressureFactor t"
    by (simp add: annualDeclineOf_def Let_def calculateAnnualDecline_table)
  with b show "Some (annualDeclineOf t) =
       map_option (\<lambda>b. b + getRegionalTrendFactor t + getUrbanPressureFactor t)
         (baseDeclineForTrend (calculateTrend t))"
    by simp
next
  show "predictedScoreOf t y = clamp (currentScoreOf t + annualDeclineOf t * y) 0 100"
    by (simp add: predictedScoreOf_def clamp_def)
next
  show "riskLevel (newPrediction t y) =
       calculateRiskLevel (currentScoreOf t)
         (clamp (currentScoreOf t + annualDeclineOf t * y) 0 100) y"
    by (simp add: newPrediction_def Let_def predictedScoreOf_def clamp_def)
next
  show "predictedScore (newPrediction t y) =
       real_of_int (Math_round (clamp (currentScoreOf t + annualDeclineOf t * y) 0 100))"
    by (simp add: newPrediction_def Let_def predictedScoreOf_def clamp_def)
next
  assume "c (cacheKeyOf t y) = None"
  then show "predictFutureEcoScore c t y =
          (newPrediction t y, c(cacheKeyOf t y \<mapsto> newPrediction t y))"
    by (simp add: predictFutureEcoScore_def Let_def)
next
  assume "c (cacheKeyOf t y) = Some q"
  then show "predictFutureEcoScore c t y = (q, c)"
    by (simp add: predictFutureEcoScore_def)
next
  assume h: "reachable c \<and> p = fst (predictFutureEcoScore c t y)"
  then obtain t' where p: "p = newPrediction t' y"
    using predictFutureEcoScore_result [of c t y] by auto
  show "yearsAhead p = y"
    by (simp add: p newPrediction_def Let_def)
  show "predictedScore p =
      real_of_int (Math_round (clamp (currentScore p + annualDecline p * y) 0 100))"
    by (simp add: p newPrediction_def Let_def predictedScoreOf_def clamp_def)
qed (simp_all add: baseDecline_entries newPrediction_def Let_def)

text \<open>
  A tract in Manhattan with the score 80.2, fifteen years ahead, on the empty
  cache: urban, so declining; -1.5 - 0.7 - 1.2 = -3.4 a year; the clamp of
  80.2 - 51 is 29.2, and the prediction returned holds 29.
\<close>

theorem trend_decline_projection_witness:
  "calculateTrend \<lparr> properties = \<lparr> lat = 40.7, lon = - 73.9, ecoScore = Some 80.2 \<rparr> \<rparr> = ''declining''
   \<and> baseDeclineForTrend ''declining'' = Some (- 1.5)
   \<and> calculateAnnualDecline ''declining'' (- 0.7) (- 1.2) = - 3.4
   \<and> annualDeclineOf \<lparr> properties = \<lparr> lat = 40.7, lon = - 73.9, ecoScore = Some 80.2 \<rparr> \<rparr> = - 3.4
   \<and> predictedScoreOf \<lparr> properties = \<lparr> lat = 40.7, lon = - 73.9, ecoScore = Some 80.2 \<rparr> \<rparr> 15 = 29.2
   \<and> Map.empty (cacheKeyOf \<lparr> properties = \<lparr> lat = 40.7, lon = - 73.9, ecoScore = Some 80.2 \<rparr> \<rparr> 15) = (None :: prediction option)
   \<and> reachable Map.empty
   \<and> predictFutureEcoScore Map.empty \<lparr> properties = \<lparr> lat = 40.7, lon = - 73.9, ecoScore = Some 80.2 \<rparr> \<rparr> 15 =
       (newPrediction \<lparr> properties = \<lparr> lat = 40.7, lon = - 73.9, ecoScore = Some 80.2 \<rparr> \<rparr> 15, [cacheKeyOf \<lparr> properties = \<lparr> lat = 40.7, lon = - 73.9, ecoScore = Some 80.2 \<rparr> \<rparr> 15 \<mapsto> newPrediction \<lparr> properties = \<lparr> lat = 40.7, lon = - 73.9, ecoScore = Some 80.2 \<rparr> \<rparr> 15])
   \<and> predictedScore (fst (predictFutureEcoScore Map.empty \<lparr> properties = \<lparr> lat = 40.7, lon = - 73.9, ecoScore = Some 80.2 \<rparr> \<rparr> 15)) = 29
   \<and> yearsAhead (fst (predictFutureEcoScore Map.empty \<lparr> properties = \<lparr> lat = 40.7, lon = - 73.9, ecoScore = Some 80.2 \<rparr> \<rparr> 15)) = 15
   \<and> predictFutureEcoScore [cacheKeyOf \<lparr> properties = \<lparr> lat = 40.7, lon = - 73.9, ecoScore = Some 80.2 \<rparr> \<rparr> 15 \<mapsto> newPrediction \<lparr> properties = \<lparr> lat = 40.7, lon = - 73.9, ecoScore = Some 80.2 \<rparr> \<rparr> 15] \<lparr> properties = \<lparr> lat = 40.7, lon = - 73.9, ecoScore = Some 80.2 \<rparr> \<rparr> 15 =
       (newPrediction \<lparr> properties = \<lparr> lat = 40.7, lon = - 73.9, ecoScore = Some 80.2 \<rparr> \<rparr> 15, [cacheKeyOf \<lparr> properties = \<lparr> lat = 40.7, lon = - 73.9, ecoScore = Some 80.2 \<rparr> \<rparr> 15 \<mapsto> newPrediction \<lparr> properties = \<lparr> lat = 40.7, lon = - 73.9, ecoScore = Some 80.2 \<rparr> \<rparr> 15])"
proof -
  let ?t = "\<lparr> properties = \<lparr> lat = 40.7, lon = - 73.9, ecoScore = Some 80.2 \<rparr> \<rparr>"
  note inst = trend_decline_projection
    [of ?t "''declining''" "- 1.5" "- 0.7" "- 1.2" 15 Map.empty "newPrediction ?t 15"
      "fst (predictFutureEcoScore Map.empty ?t 15)"]
  from inst have "calculateTrend ?t =
     spec_trend (SimpleAIPredictor_isUrbanArea (lat (properties ?t)) (lon (properties ?t)))
       (isProtectedArea (lat (properties ?t)) (lon (properties ?t)))
       (isCoastal (lat (properties ?t)) (lon (properties ?t)))"
    by (rule conjunct1)
  then have tr: "calculateTrend ?t = ''declining''"
    by (simp add: spec_trend_def SimpleAIPredictor_isUrbanArea_def)
  from inst have entry: "baseDeclineForTrend ''declining'' = Some (- 1.5)"
    by blast
  with inst have "calculateAnnualDecline ''declining'' (- 0.7) (- 1.2) = - 1.5 + - 0.7 + - 1.2"
    by blast
  then have table: "calculateAnnualDecline ''declining'' (- 0.7) (- 1.2) = - 3.4"
    by simp
  from inst have "Some (annualDeclineOf ?t) =
       map_option (\<lambda>b. b + getRegionalTrendFactor ?t + getUrbanPressureFactor ?t)
         (baseDeclineForTrend (calculateTrend ?t))"
    by blast
  then have ad: "annualDeclineOf ?t = - 3.4"
    unfolding tr entry
    by (simp add: getRegionalTrendFactor_def getUrbanPressureFactor_def
        SimpleAIPredictor_isUrbanArea_def)
  have cs: "currentScoreOf ?t = 80.2"
    by (simp add: currentScoreOf_def)
  from inst have "predictedScoreOf ?t 15 = clamp (currentScoreOf ?t + annualDeclineOf ?t * 15) 0 100"
    by blast
  then have ps: "predictedScoreOf ?t 15 = 29.2"
    unfolding ad cs by (simp add: clamp_def)
  have miss: "Map.empty (cacheKeyOf ?t 15) = (None :: prediction option)"
    by simp
  with inst have call: "predictFutureEcoScore Map.empty ?t 15 =
       (newPrediction ?t 15, [cacheKeyOf ?t 15 \<mapsto> newPrediction ?t 15])"
    by blast
  have r: "reachable Map.empty"
    by (rule reachable_empty)
  from inst have "predictedScore (newPrediction ?t 15) =
       real_of_int (Math_round (clamp (currentScoreOf ?t + annualDeclineOf ?t * 15) 0 100))"
    by blast
  then have "predictedScore (newPrediction ?t 15) = 29"
    unfolding ad cs by (simp add: clamp_def Math_round_def)
  then have stored: "predictedScore (fst (predictFutureEcoScore Map.empty ?t 15)) = 29"
    unfolding call by (simp only: fst_conv)
  from inst r have years: "yearsAhead (fst (predictFutureEcoScore Map.empty ?t 15)) = 15"
    by blast
  let ?c = "[cacheKeyOf ?t 15 \<mapsto> newPrediction ?t 15]"
  have "?c (cacheKeyOf ?t 15) = Some (newPrediction ?t 15)"
    by simp
  with trend_decline_projection
    [of ?t "''declining''" "- 1.5" "- 0.7" "- 1.2" 15 ?c "newPrediction ?t 15"
      "fst (predictFutureEcoScore ?c ?t 15)"]
  have hit: "predictFutureEcoScore ?c ?t 15 = (newPrediction ?t 15, ?c)"
    by blast
  from tr entry table ad ps miss r call stored years hit show ?thesis
    by (intro conjI)
qed

section \<open>Risk level\<close>

lemma js_rate_finite:
  "y \<noteq> 0 \<Longrightarrow> js_gt (js_divide d y) c = (d / y > c)"
  by (simp add: js_divide_def)

text \<open>
  Claim C7.  With the decline rate \<open>(currentScore - predictedScore) / yearsAhead\<close>,
  \<open>calculateRiskLevel\<close> returns \<open>critical\<close> exactly when the predicted score is
  below 30 or the rate is above 2, both strictly; otherwise \<open>high\<close> exactly when
  the predicted score is below 50 or the rate is above 1.5; otherwise
  \<open>moderate\<close> exactly when the rate is above 0.5; otherwise \<open>low\<close>.  The rate
  is JavaScript's quotient; for \<open>yearsAhead \<noteq> 0\<close> it is the real quotient and
  the result is the rule of the specification.  A predicted score of 29.9 is
  critical, and a predicted score of 30 with a rate of at most 2 is high.
\<close>

theorem calculateRiskLevel_thresholds:
  "(calculateRiskLevel cs ps y = ''critical'') = (ps < 30 \<or> js_gt (js_divide (cs - ps) y) 2)
   \<and> (calculateRiskLevel cs ps y = ''high'') =
       (\<not> (ps < 30 \<or> js_gt (js_divide (cs - ps) y) 2)
        \<and> (ps < 50 \<or> js_gt (js_divide (cs - ps) y) 1.5))
   \<and> (calculateRiskLevel cs ps y = ''moderate'') =
       (\<not> (ps < 30 \<or> js_gt (js_divide (cs - ps) y) 2)
        \<and> \<not> (ps < 50 \<or> js_gt (js_divide (cs - ps) y) 1.5)
        \<and> js_gt (js_divide (cs - ps) y) 0.5)
   \<and> (calculateRiskLevel cs ps y = ''low'') =
       (\<not> (ps < 30 \<or> js_gt (js_divide (cs - ps) y) 2)
        \<and> \<not> (ps < 50 \<or> js_gt (js_divide (cs - ps) y) 1.5)
        \<and> \<not> js_gt (js_divide (cs - ps) y) 0.5)
   \<and> (y \<noteq> 0 \<longrightarrow> js_gt (js_divide (cs - ps) y) c = ((cs - ps) / y > c))
   \<and> (y \<noteq> 0 \<longrightarrow> calculateRiskLevel cs ps y = spec_riskLevel ps ((cs - ps) / y))
   \<and> calculateRiskLevel cs 29.9 y = ''critical''
   \<and> (\<not> js_gt (js_divide (cs - 30) y) 2 \<longrightarrow> calculateRiskLevel cs 30 y = ''high'')"
  by (simp add: calculateRiskLevel_def Let_def spec_riskLevel_def js_rate_finite)

theorem calculateRiskLevel_thresholds_witness:
  "calculateRiskLevel 45 30 15 = ''high''
   \<and> calculateRiskLevel 45 30 15 = spec_riskLevel 30 ((45 - 30) / 15)
   \<and> calculateRiskLevel 45 29.9 15 = ''critical''
   \<and> calculateRiskLevel 80 60.5 15 = ''moderate''"
proof -
  have nz: "(15::real) \<noteq> 0" by simp
  have slow: "\<not> js_gt (js_divide (45 - 30) 15) 2" by (simp add: js_divide_def)
  from nz slow calculateRiskLevel_thresholds [of 45 30 15 2]
    calculateRiskLevel_thresholds [of 45 "29.9" 15 2]
    calculateRiskLevel_thresholds [of 80 "60.5" 15 "0.5"]
  show ?thesis by (simp add: spec_riskLevel_def)
qed

section \<open>No prediction of improvement\<close>

lemma regional_range: "- 0.8 \<le> getRegionalTrendFactor t \<and> getRegionalTrendFactor t \<le> - 0.2"
  by (simp add: getRegionalTrendFactor_def Let_def)

lemma urban_range: "- 1.2 \<le> getUrbanPressureFactor t \<and> getUrbanPressureFactor t \<le> - 0.3"
  by (simp add: getUrbanPressureFactor_def Let_def)

lemma base_range:
  "- 1.5 \<le> calculateAnnualDecline (calculateTrend t) 0 0
   \<and> calculateAnnualDecline (calculateTrend t) 0 0 \<le> - 0.1"
  by (simp add: calculateAnnualDecline_def calculateTrend_def Let_def)

lemma calculateAnnualDecline_sum:
  "calculateAnnualDecline tr r u = calculateAnnualDecline tr 0 0 + r + u"
  by (simp add: calculateAnnualDecline_def Let_def)

lemma annualDecline_range: "- 3.5 \<le> annualDeclineOf t \<and> annualDeclineOf t \<le> - 0.6"
proof -
  have "annualDeclineOf t =
      calculateAnnualDecline (calculateTrend t) 0 0 + getRegionalTrendFactor t
        + getUrbanPressureFactor t"
    using calculateAnnualDecline_sum
      [of "calculateTrend t" "getRegionalTrendFactor t" "getUrbanPressureFactor t"]
    by (simp add: annualDeclineOf_def Let_def)
  with regional_range [of t] urban_range [of t] base_range [of t] show ?thesis
    by simp
qed

lemma projection_step:
  assumes y: "1 \<le> y" and cs: "0 \<le> currentScoreOf t"
  shows "predictedScoreOf t y \<le> currentScoreOf t"
    and "real_of_int (Math_round (predictedScoreOf t y)) \<le> currentScoreOf t"
proof -
  have ad: "annualDeclineOf t \<le> - 0.6"
    using annualDecline_range by simp
  have "annualDeclineOf t * y \<le> annualDeclineOf t * 1"
    using ad y by (intro mult_left_mono_neg) simp_all
  then have "annualDeclineOf t * y \<le> annualDeclineOf t"
    by (simp only: mult_1_right)
  with ad have drop: "annualDeclineOf t * y \<le> - 0.6"
    by linarith
  show "predictedScoreOf t y \<le> currentScoreOf t"
    using drop cs by (simp add: predictedScoreOf_def)
  show "real_of_int (Math_round (predictedScoreOf t y)) \<le> currentScoreOf t"
  proof (cases "currentScoreOf t + annualDeclineOf t * y \<le> 0")
    case True
    then have "predictedScoreOf t y = 0"
      by (simp add: predictedScoreOf_def)
    with cs show ?thesis
      by (simp add: Math_round_def)
  next
    case False
    then have "predictedScoreOf t y \<le> currentScoreOf t - 0.6"
      using drop by (simp add: predictedScoreOf_def)
    moreover have "real_of_int (Math_round (predictedScoreOf t y)) \<le> predictedScoreOf t y + 1 / 2"
      unfolding Math_round_def by (rule of_int_floor_le)
    ultimately show ?thesis
      by simp
  qed
qed

text \<open>
  Claim C9.  The annual decline of every tract lies between -3.5 and -0.6 and is
  strictly negative.  For \<open>yearsAhead \<ge> 1\<close> and a current score between 0 and
  100 the projected score is at most the current score.  The same holds for the
  record that \<open>predictFutureEcoScore\<close> returns from any cache the predictor can
  hold, whether it is computed or read from the cache: its annual decline is in
  that range and its (rounded) predicted score is at most its current score.
\<close>

theorem projection_never_improves:
  "- 3.5 \<le> annualDeclineOf t \<and> annualDeclineOf t \<le> - 0.6 \<and> annualDeclineOf t < 0
   \<and> (1 \<le> y \<and> 0 \<le> currentScoreOf t \<and> currentScoreOf t \<le> 100 \<longrightarrow>
        predictedScoreOf t y \<le> currentScoreOf t)
   \<and> (reachable c \<and> 1 \<le> y \<and> p = fst (predictFutureEcoScore c u y)
        \<and> 0 \<le> currentScore p \<and> currentScore p \<le> 100 \<longrightarrow>
        - 3.5 \<le> annualDecline p \<and> annualDecline p \<le> - 0.6
        \<and> predictedScore p \<le> currentScore p)"
proof (intro conjI impI)
  show "- 3.5 \<le> annualDeclineOf t" "annualDeclineOf t \<le> - 0.6"
    using annualDecline_range [of t] by simp_all
  then show "annualDeclineOf t < 0" by simp
next
  assume "1 \<le> y \<and> 0 \<le> currentScoreOf t \<and> currentScoreOf t \<le> 100"
  then show "predictedScoreOf t y \<le> currentScoreOf t"
    by (simp add: projection_step)
next
  assume h: "reachable c \<and> 1 \<le> y \<and> p = fst (predictFutureEcoScore c u y)
        \<and> 0 \<le> currentScore p \<and> currentScore p \<le> 100"
  then obtain t' where p: "p = newPrediction t' y"
    using predictFutureEcoScore_result [of c u y] by auto
  then have fields: "currentScore p = currentScoreOf t'" "annualDecline p = annualDeclineOf t'"
      "predictedScore p = real_of_int (Math_round (predictedScoreOf t' y))"
    by (simp_all add: newPrediction_def Let_def)
  show "- 3.5 \<le> annualDecline p" "annualDecline p \<le> - 0.6"
    using annualDecline_range [of t'] fields by simp_all
  show "predictedScore p \<le> currentScore p"
    using h fields projection_step(2) [of y t'] by simp
qed

text \<open>
  A tract at \<open>(38.5, -122.9)\<close> with the score 62, fifteen years ahead, on the
  empty cache; then a second call for the same place with the score 10, which
  reads the first prediction from the cache.
\<close>

theorem projection_never_improves_witness:
  "reachable (snd (predictFutureEcoScore Map.empty
      \<lparr> properties = \<lparr> lat = 38.5, lon = - 122.9, ecoScore = Some 62 \<rparr> \<rparr> 15))
   \<and> currentScoreOf \<lparr> properties = \<lparr> lat = 38.5, lon = - 122.9, ecoScore = Some 62 \<rparr> \<rparr> = 62
   \<and> predictedScoreOf \<lparr> properties = \<lparr> lat = 38.5, lon = - 122.9, ecoScore = Some 62 \<rparr> \<rparr> 15
        \<le> 62
   \<and> currentScore (fst (predictFutureEcoScore
        (snd (predictFutureEcoScore Map.empty
           \<lparr> properties = \<lparr> lat = 38.5, lon = - 122.9, ecoScore = Some 62 \<rparr> \<rparr> 15))
        \<lparr> properties = \<lparr> lat = 38.5, lon = - 122.9, ecoScore = Some 10 \<rparr> \<rparr> 15)) = 62
   \<and> predictedScore (fst (predictFutureEcoScore
        (snd (predictFutureEcoScore Map.empty
           \<lparr> properties = \<lparr> lat = 38.5, lon = - 122.9, ecoScore = Some 62 \<rparr> \<rparr> 15))
        \<lparr> properties = \<lparr> lat = 38.5, lon = - 122.9, ecoScore = Some 10 \<rparr> \<rparr> 15)) \<le> 62"
proof -
  let ?t = "\<lparr> properties = \<lparr> lat = 38.5, lon = - 122.9, ecoScore = Some 62 \<rparr> \<rparr>"
  let ?u = "\<lparr> properties = \<lparr> lat = 38.5, lon = - 122.9, ecoScore = Some 10 \<rparr> \<rparr>"
  let ?c = "snd (predictFutureEcoScore Map.empty ?t 15)"
  let ?p = "fst (predictFutureEcoScore ?c ?u 15)"
  have r: "reachable ?c"
    by (intro reachable.intros)
  have y: "(1::real) \<le> 15"
    by simp
  have cs: "currentScoreOf ?t = 62"
    by (simp add: currentScoreOf_def)
  have hit: "?p = newPrediction ?t 15"
    by (simp add: predictFutureEcoScore_def cacheKeyOf_def Let_def)
  have pcs: "currentScore ?p = 62"
    unfolding hit by (simp add: newPrediction_def Let_def currentScoreOf_def)
  note inst = projection_never_improves [of ?t 15 ?c ?p ?u]
  from inst y cs have fresh: "predictedScoreOf ?t 15 \<le> 62"
    by simp
  from inst r y pcs have "predictedScore ?p \<le> currentScore ?p"
    by simp
  with pcs have cached: "predictedScore ?p \<le> 62"
    by simp
  from r cs fresh pcs cached show ?thesis
    by blast
qed

end
